theory Spec2Isabelle
  imports Main
begin

section \<open>The SAML back end of the affiliation broker (svs/saml.py)\<close>

text \<open>
  A shallow embedding of \<^verbatim>\<open>src/svs/saml.py\<close>: the class \<^verbatim>\<open>SamlSp\<close> (one SAML service
  provider) and the class \<^verbatim>\<open>InAcademiaSAMLBackend\<close> (the two service providers and the
  discovery, request and response handlers). Python exceptions are values of the type
  \<open>error\<close>; a function that may raise returns \<open>error + 'a\<close>, with \<open>Inl\<close> the exception.
  Python byte strings are \<open>string\<close>, dictionaries are maps.
\<close>

subsection \<open>Exceptions\<close>

text \<open>
  \<^verbatim>\<open>ServiceErrorException\<close> and its subclass \<^verbatim>\<open>AuthnFailure\<close> are declared in the module
  (lines 33-38). The others are Python's built-in exceptions that the code can raise
  (\<^verbatim>\<open>KeyError\<close>, \<^verbatim>\<open>IndexError\<close>, \<^verbatim>\<open>ValueError\<close>), the \<^verbatim>\<open>ConnectionError\<close> of the SAML
  library that \<^verbatim>\<open>disco\<close> catches, and \<open>LibraryError\<close> for any other exception raised
  inside the SAML library while it parses and validates a response.
\<close>

datatype error =
    ServiceErrorException string
  | AuthnFailure string
  | KeyError string
  | IndexError
  | ValueError string
  | ConnectionError string
  | LibraryError string

text \<open>\<^verbatim>\<open>except ServiceErrorException\<close> catches the class and its subclass.\<close>

fun is_ServiceErrorException :: "error \<Rightarrow> bool" where
  "is_ServiceErrorException (ServiceErrorException m) = True"
| "is_ServiceErrorException (AuthnFailure m) = True"
| "is_ServiceErrorException e = False"

fun is_AuthnFailure :: "error \<Rightarrow> bool" where
  "is_AuthnFailure (AuthnFailure m) = True"
| "is_AuthnFailure e = False"

fun is_ConnectionError :: "error \<Rightarrow> bool" where
  "is_ConnectionError (ConnectionError m) = True"
| "is_ConnectionError e = False"

subsection \<open>Constants of the SAML library and of svs.filter\<close>

type_synonym binding = string

definition BINDING_HTTP_POST :: binding where
  "BINDING_HTTP_POST = ''urn:oasis:names:tc:SAML:2.0:bindings:HTTP-POST''"

definition BINDING_HTTP_REDIRECT :: binding where
  "BINDING_HTTP_REDIRECT = ''urn:oasis:names:tc:SAML:2.0:bindings:HTTP-Redirect''"

definition NAMEID_FORMAT_PERSISTENT :: string where
  "NAMEID_FORMAT_PERSISTENT = ''urn:oasis:names:tc:SAML:2.0:nameid-format:persistent''"

definition NAMEID_FORMAT_ENTITY :: string where
  "NAMEID_FORMAT_ENTITY = ''urn:oasis:names:tc:SAML:2.0:nameid-format:entity''"

text \<open>
  Modelled from the spec: the constants \<^verbatim>\<open>PERSISTENT_NAMEID\<close> and \<^verbatim>\<open>TRANSIENT_NAMEID\<close> are
  imported from \<^verbatim>\<open>svs.filter\<close>, which is not among the sources. The spec names the two
  recognised scope tokens \<^verbatim>\<open>persistent\<close> and \<^verbatim>\<open>transient\<close>.
\<close>

definition PERSISTENT_NAMEID :: string where
  "PERSISTENT_NAMEID = ''persistent''"

definition TRANSIENT_NAMEID :: string where
  "TRANSIENT_NAMEID = ''transient''"

subsection \<open>Data\<close>

text \<open>The part of the SAML library's \<^verbatim>\<open>SPConfig\<close> that the module reads.\<close>

record sp_config =
  entityid :: string
  endpoints :: "string \<rightharpoonup> (string \<times> binding) list"
  name_id_format :: "string list"

record NameIDPolicy =
  format :: string
  allow_create :: string

record Issuer =
  issuer_text :: string
  issuer_format :: string

text \<open>
  \<^verbatim>\<open>AuthnRequest(id=..., version=..., issue_instant=..., issuer=..., name_id_policy=...,
  force_authn=..., **arg)\<close>: the keys of \<^verbatim>\<open>arg\<close> that may be missing are optional fields.
\<close>

record AuthnRequest =
  id :: string
  version :: string
  issue_instant :: string
  issuer :: Issuer
  name_id_policy :: NameIDPolicy
  force_authn :: string
  destination :: string
  assertion_consumer_service_url :: "string option"
  protocol_binding :: "binding option"
  assertion_consumer_service_index :: "string option"

text \<open>The attributes of a \<^verbatim>\<open>SamlSp\<close> object, as its constructor sets them.\<close>

record SamlSp =
  idp_query_param :: string
  conf :: sp_config
  disco_srv :: string
  sp_force_authn :: bool
  sign_func :: "(AuthnRequest \<Rightarrow> string) option"
  response_binding :: binding
  response_url :: string
  nameid_policy :: NameIDPolicy
  allow_unsolicited :: bool
  sp_issuer :: Issuer

text \<open>
  An endpoint of the metadata is a dictionary with a \<^verbatim>\<open>"location"\<close> key;
  \<^verbatim>\<open>mds.service(...)\<close> returns \<^verbatim>\<open>None\<close> or a dictionary from bindings to lists of endpoints,
  or raises (the metadata is fetched over the network).
\<close>

type_synonym endpoint = "string \<rightharpoonup> string"
type_synonym destinations = "binding \<rightharpoonup> endpoint list"
type_synonym metadata = "string \<Rightarrow> error + destinations option"

text \<open>The asserted name id and the attribute bag of a parsed response.\<close>

record NameID =
  nameid_format :: "string option"
  nameid_text :: "string option"

type_synonym identity = "string \<rightharpoonup> string list"

subsection \<open>Python primitives\<close>

text \<open>\<^verbatim>\<open>xs[0]\<close> raises \<^verbatim>\<open>IndexError\<close> on an empty list; \<^verbatim>\<open>d[k]\<close> raises \<^verbatim>\<open>KeyError\<close>.\<close>

definition first_item :: "'a list \<Rightarrow> error + 'a" where
  "first_item xs = (case xs of [] \<Rightarrow> Inl IndexError | x # _ \<Rightarrow> Inr x)"

definition getitem :: "(string \<rightharpoonup> 'v) \<Rightarrow> string \<Rightarrow> error + 'v" where
  "getitem d k = (case d k of None \<Rightarrow> Inl (KeyError k) | Some v \<Rightarrow> Inr v)"

subsection \<open>SamlSp\<close>

text \<open>
  \<^verbatim>\<open>SamlSp.__init__\<close> (lines 42-77). \<^verbatim>\<open>acs[0]\<close> and \<^verbatim>\<open>name_id_format[0]\<close> raise on an empty
  list, the lookup of \<^verbatim>\<open>"assertion_consumer_service"\<close> raises when the key is missing.
\<close>

definition SamlSp_init ::
  "sp_config \<Rightarrow> string \<Rightarrow> bool \<Rightarrow> (AuthnRequest \<Rightarrow> string) option \<Rightarrow> error + SamlSp" where
  "SamlSp_init cnf disco force sign =
     (case getitem (endpoints cnf) ''assertion_consumer_service'' of
        Inl e \<Rightarrow> Inl e
      | Inr acs \<Rightarrow>
     (case first_item acs of
        Inl e \<Rightarrow> Inl e
      | Inr acs0 \<Rightarrow>
     (case first_item (name_id_format cnf) of
        Inl e \<Rightarrow> Inl e
      | Inr fmt \<Rightarrow>
          Inr \<lparr> idp_query_param = ''IdpQuery'',
                conf = cnf,
                disco_srv = disco,
                sp_force_authn = force,
                sign_func = sign,
                response_binding = snd acs0,
                response_url = fst acs0,
                nameid_policy = \<lparr> format = fmt, allow_create = ''false'' \<rparr>,
                allow_unsolicited = True,
                sp_issuer = \<lparr> issuer_text = entityid cnf,
                              issuer_format = NAMEID_FORMAT_ENTITY \<rparr> \<rparr>)))"

text \<open>
  The binding choice of \<^verbatim>\<open>construct_authn_request\<close> (lines 97-105): HTTP-POST before
  HTTP-Redirect, and the exception when the metadata offers neither.
\<close>

definition choose_binding :: "destinations \<Rightarrow> error + binding" where
  "choose_binding dests =
     (let binding = (if BINDING_HTTP_POST \<in> dom dests then Some BINDING_HTTP_POST
                     else if BINDING_HTTP_REDIRECT \<in> dom dests then Some BINDING_HTTP_REDIRECT
                     else None)
      in case binding of
           None \<Rightarrow> Inl (ServiceErrorException
                          ''IdP does not support http-post or http-redirect binding'')
         | Some b \<Rightarrow> Inr b)"

text \<open>
  \<^verbatim>\<open>SamlSp.construct_authn_request\<close> (lines 79-124). \<^verbatim>\<open>sid()\<close> and \<^verbatim>\<open>instant()\<close> draw a fresh
  request id and read the clock: they are functions on an explicit state \<open>'s\<close>, which the
  request builder threads and returns. An exception raised before they are called leaves
  the state as it was. The two optional arguments default to the empty string, and an
  empty string is false in the tests of lines 110 and 113.
\<close>

record 's generators =
  sid :: "'s \<Rightarrow> string \<times> 's"
  instant :: "'s \<Rightarrow> string \<times> 's"
  rndstr :: "nat \<Rightarrow> 's \<Rightarrow> string \<times> 's"

definition construct_authn_request ::
  "'s generators \<Rightarrow> SamlSp \<Rightarrow> string \<Rightarrow> metadata \<Rightarrow> NameIDPolicy \<Rightarrow> string \<Rightarrow> string \<Rightarrow>
   's \<Rightarrow> (error + AuthnRequest \<times> binding) \<times> 's" where
  "construct_authn_request G self idp_entity_id mds policy acs_url acs_index s =
     (case mds idp_entity_id of
        Inl e \<Rightarrow> (Inl e, s)
      | Inr None \<Rightarrow>
          (Inl (ServiceErrorException (''IdP '' @ [CHR 0x27] @ idp_entity_id @ [CHR 0x27] @ '' not known in MDX'')), s)
      | Inr (Some dests) \<Rightarrow>
     (case choose_binding dests of
        Inl e \<Rightarrow> (Inl e, s)
      | Inr b \<Rightarrow>
     (case getitem dests b of
        Inl e \<Rightarrow> (Inl e, s)
      | Inr eps \<Rightarrow>
     (case first_item eps of
        Inl e \<Rightarrow> (Inl e, s)
      | Inr ep \<Rightarrow>
     (case getitem ep ''location'' of
        Inl e \<Rightarrow> (Inl e, s)
      | Inr loc \<Rightarrow>
          (let force = (if sp_force_authn self then ''true'' else ''false'');
               (i, s1) = sid G s;
               (t, s2) = instant G s1
           in (Inr (\<lparr> id = i, version = ''2.0'', issue_instant = t,
                       issuer = sp_issuer self, name_id_policy = policy,
                       force_authn = force, destination = loc,
                       assertion_consumer_service_url =
                         (if acs_url \<noteq> [] then Some acs_url else None),
                       protocol_binding =
                         (if acs_url \<noteq> [] then Some (response_binding self) else None),
                       assertion_consumer_service_index =
                         (if acs_index \<noteq> [] then Some acs_index else None) \<rparr>, b), s2)))))))"

subsection \<open>InAcademiaSAMLBackend\<close>

text \<open>
  The backend object: the dictionary \<^verbatim>\<open>self.SP\<close> of service providers and the metadata
  source \<^verbatim>\<open>self.metadata\<close>.
\<close>

record backend =
  SP :: "string \<rightharpoonup> SamlSp"
  metadata :: metadata

text \<open>
  \<^verbatim>\<open>InAcademiaSAMLBackend.__init__\<close> (lines 215-238): one \<^verbatim>\<open>SamlSp\<close> for each entry of the
  configuration that \<^verbatim>\<open>load_sp_config\<close> returns (not among the sources: the entries are
  a parameter here, in the order in which the dictionary is iterated), each built with
  \<^verbatim>\<open>force_authn=True\<close> and no signing function. A constructor that raises ends the loop.
\<close>

fun build_SP :: "(string \<times> sp_config) list \<Rightarrow> string \<Rightarrow> (string \<rightharpoonup> SamlSp) \<Rightarrow>
    error + (string \<rightharpoonup> SamlSp)" where
  "build_SP [] disco_url acc = Inr acc"
| "build_SP ((sp_key, cnf) # rest) disco_url acc =
     (case SamlSp_init cnf disco_url True None of
        Inl e \<Rightarrow> Inl e
      | Inr sp \<Rightarrow> build_SP rest disco_url (acc(sp_key \<mapsto> sp)))"

definition backend_init :: "(string \<times> sp_config) list \<Rightarrow> metadata \<Rightarrow> string \<Rightarrow> error + backend" where
  "backend_init config mdx disco_url =
     (case build_SP config disco_url Map.empty of
        Inl e \<Rightarrow> Inl e
      | Inr sps \<Rightarrow> Inr \<lparr> SP = sps, metadata = mdx \<rparr>)"

text \<open>
  \<^verbatim>\<open>_choose_service_provider\<close> (lines 247-261). The scope is the list of scope tokens of the
  relying party's request; \<^verbatim>\<open>self.SP[sp_key]\<close> raises \<^verbatim>\<open>KeyError\<close> on a missing key.
\<close>

definition choose_service_provider :: "backend \<Rightarrow> string list \<Rightarrow> error + SamlSp" where
  "choose_service_provider self scope =
     (let sp_key = (if PERSISTENT_NAMEID \<in> set scope then PERSISTENT_NAMEID
                    else TRANSIENT_NAMEID)
      in getitem (SP self) sp_key)"

text \<open>
  \<^verbatim>\<open>get_name_id\<close> (lines 336-356). The result \<open>Inr None\<close> is Python's \<^verbatim>\<open>None\<close>. The loop over
  the two attribute names returns at the first name that is a key of the identity;
  \<^verbatim>\<open>identity[key][0]\<close> raises \<^verbatim>\<open>IndexError\<close> when that attribute has no value.
\<close>

fun get_name_id_loop :: "string list \<Rightarrow> identity \<Rightarrow> error + string option" where
  "get_name_id_loop [] ident = Inr None"
| "get_name_id_loop (key # keys) ident =
     (case ident key of
        Some vs \<Rightarrow> (case first_item vs of Inl e \<Rightarrow> Inl e | Inr v \<Rightarrow> Inr (Some v))
      | None \<Rightarrow> get_name_id_loop keys ident)"

definition get_name_id :: "NameID \<Rightarrow> identity \<Rightarrow> error + string option" where
  "get_name_id name_id_from_idp ident =
     (if nameid_format name_id_from_idp = Some NAMEID_FORMAT_PERSISTENT
      then Inr (nameid_text name_id_from_idp)
      else get_name_id_loop [''eduPersonTargetedID'', ''eduPersonPrincipalName''] ident)"

subsection \<open>Python's urlparse module\<close>

text \<open>
  \<^verbatim>\<open>_is_in_edugain\<close> and \<^verbatim>\<open>_parse_idp_entity_id\<close> call \<^verbatim>\<open>urlparse.urlparse\<close>,
  \<^verbatim>\<open>urlparse.parse_qs\<close> and \<^verbatim>\<open>urlparse.urlunparse\<close> of the Python 2.7 standard library.
  The functions below follow that module (as of Python 2.7.18) on byte strings, with the
  default arguments the code uses: no default scheme, fragments allowed, blank values of
  the query dropped, no strict parsing. Its cache of results is left out.
\<close>

text \<open>\<^verbatim>\<open>s.split(c)\<close>: the pieces of \<open>s\<close> between the occurrences of \<open>c\<close>, never an empty list.\<close>

fun split :: "char \<Rightarrow> string \<Rightarrow> string list" where
  "split c [] = [[]]"
| "split c (x # xs) =
     (if x = c then [] # split c xs
      else (case split c xs of [] \<Rightarrow> [[x]] | p # ps \<Rightarrow> (x # p) # ps))"

text \<open>\<^verbatim>\<open>s.split(c, 1)\<close> for an \<open>s\<close> that contains \<open>c\<close>: the text before and after the first \<open>c\<close>.\<close>

definition split1 :: "char \<Rightarrow> string \<Rightarrow> string \<times> string" where
  "split1 c s = (takeWhile (\<lambda>x. x \<noteq> c) s, drop 1 (dropWhile (\<lambda>x. x \<noteq> c) s))"

definition scheme_chars :: string where
  "scheme_chars = ''abcdefghijklmnopqrstuvwxyzABCDEFGHIJKLMNOPQRSTUVWXYZ0123456789+-.''"

definition uses_netloc :: "string list" where
  "uses_netloc = [''ftp'', ''http'', ''gopher'', ''nntp'', ''telnet'', ''imap'', ''wais'',
     ''file'', ''mms'', ''https'', ''shttp'', ''snews'', ''prospero'', ''rtsp'', ''rtspu'',
     ''rsync'', [], ''svn'', ''svn+ssh'', ''sftp'', ''nfs'', ''git'', ''git+ssh'']"

definition uses_params :: "string list" where
  "uses_params = [''ftp'', ''hdl'', ''prospero'', ''http'', ''imap'', ''https'', ''shttp'',
     ''rtsp'', ''rtspu'', ''sip'', ''sips'', ''mms'', [], ''sftp'', ''tel'']"

text \<open>\<^verbatim>\<open>str.lower\<close> on ASCII letters.\<close>

definition lower_char :: "char \<Rightarrow> char" where
  "lower_char c =
     (case map_of (zip ''ABCDEFGHIJKLMNOPQRSTUVWXYZ'' ''abcdefghijklmnopqrstuvwxyz'') c of
        Some l \<Rightarrow> l | None \<Rightarrow> c)"

definition lower :: "string \<Rightarrow> string" where
  "lower s = map lower_char s"

text \<open>
  \<^verbatim>\<open>_splitnetloc(url, 2)\<close>: the network location runs from position 2 to the first of
  \<^verbatim>\<open>/\<close>, \<^verbatim>\<open>?\<close> and \<^verbatim>\<open>#\<close>, or to the end.
\<close>

definition netloc_delim :: "char \<Rightarrow> bool" where
  "netloc_delim c = (c = CHR ''/'' \<or> c = CHR ''?'' \<or> c = CHR ''#'')"

definition splitnetloc :: "string \<Rightarrow> string \<times> string" where
  "splitnetloc url =
     (takeWhile (\<lambda>c. \<not> netloc_delim c) (drop 2 url),
      dropWhile (\<lambda>c. \<not> netloc_delim c) (drop 2 url))"

record SplitResult =
  scheme :: string
  netloc :: string
  path :: string
  query :: string
  fragment :: string

text \<open>
  The second half of \<^verbatim>\<open>urlsplit\<close>, which the fast path for \<^verbatim>\<open>http\<close> repeats word for word:
  the network location after \<^verbatim>\<open>//\<close> (with the test on IPv6 brackets that raises
  \<^verbatim>\<open>ValueError\<close>), then the fragment after the first \<^verbatim>\<open>#\<close>, then the query after the
  first \<^verbatim>\<open>?\<close>.
\<close>

definition urlsplit_rest :: "string \<Rightarrow> string \<Rightarrow> error + SplitResult" where
  "urlsplit_rest sch url =
     (let (nl, url1) = (if take 2 url = ''//'' then splitnetloc url else ([], url))
      in if (CHR ''['' \<in> set nl \<and> CHR '']'' \<notin> set nl) \<or>
            (CHR '']'' \<in> set nl \<and> CHR ''['' \<notin> set nl)
         then Inl (ValueError ''Invalid IPv6 URL'')
         else
           (let (url2, frag) = (if CHR ''#'' \<in> set url1 then split1 (CHR ''#'') url1
                                else (url1, []));
                (url3, qry) = (if CHR ''?'' \<in> set url2 then split1 (CHR ''?'') url2
                               else (url2, []))
            in Inr \<lparr> scheme = sch, netloc = nl, path = url3, query = qry, fragment = frag \<rparr>))"

text \<open>
  \<^verbatim>\<open>urlsplit(url)\<close>. With \<open>i\<close> the position of the first colon and \<open>i > 0\<close>: when the text
  before the colon is \<^verbatim>\<open>http\<close>, that is the scheme; when it consists of scheme characters
  and the text after the colon is not a port number (it is empty, or has a character that
  is no digit), its lower case is the scheme. Otherwise the URL has no scheme and is split
  whole.
\<close>

definition urlsplit :: "string \<Rightarrow> error + SplitResult" where
  "urlsplit url =
     (let pre = takeWhile (\<lambda>c. c \<noteq> CHR '':'') url;
          rest = drop (length pre + 1) url
      in if CHR '':'' \<in> set url \<and> pre \<noteq> [] then
           (if pre = ''http'' then urlsplit_rest (lower pre) rest
            else if list_all (\<lambda>c. c \<in> set scheme_chars) pre \<and>
                    (rest = [] \<or> list_ex (\<lambda>c. c \<notin> set ''0123456789'') rest)
                 then urlsplit_rest (lower pre) rest
                 else urlsplit_rest [] url)
         else urlsplit_rest [] url)"

record ParseResult = SplitResult +
  params :: string

text \<open>
  \<^verbatim>\<open>_splitparams(url)\<close>: the parameters follow the first \<^verbatim>\<open>;\<close> of the last path segment
  (the search starts at the last \<^verbatim>\<open>/\<close>, or at the start when there is none). Without a
  \<^verbatim>\<open>;\<close> there the path is whole.
\<close>

definition splitparams :: "string \<Rightarrow> string \<times> string" where
  "splitparams url =
     (let seg = rev (takeWhile (\<lambda>c. c \<noteq> CHR ''/'') (rev url));
          dir = take (length url - length seg) url
      in if CHR '';'' \<in> set seg
         then (dir @ takeWhile (\<lambda>c. c \<noteq> CHR '';'') seg,
               drop 1 (dropWhile (\<lambda>c. c \<noteq> CHR '';'') seg))
         else (url, []))"

definition urlparse :: "string \<Rightarrow> error + ParseResult" where
  "urlparse url =
     (case urlsplit url of
        Inl e \<Rightarrow> Inl e
      | Inr r \<Rightarrow>
          (let (url1, prm) = (if scheme r \<in> set uses_params \<and> CHR '';'' \<in> set (path r)
                              then splitparams (path r) else (path r, []))
           in Inr \<lparr> scheme = scheme r, netloc = netloc r, path = url1, query = query r,
                    fragment = fragment r, params = prm \<rparr>))"

text \<open>\<^verbatim>\<open>urlunsplit\<close> and \<^verbatim>\<open>urlunparse\<close>.\<close>

definition urlunsplit :: "string \<times> string \<times> string \<times> string \<times> string \<Rightarrow> string" where
  "urlunsplit d =
     (case d of (sch, nl, url, qry, frag) \<Rightarrow>
        (let url1 = (if nl \<noteq> [] \<or> (sch \<noteq> [] \<and> sch \<in> set uses_netloc \<and> take 2 url \<noteq> ''//'')
                     then ''//'' @ nl @
                          (if url \<noteq> [] \<and> take 1 url \<noteq> ''/'' then ''/'' @ url else url)
                     else url);
             url2 = (if sch \<noteq> [] then sch @ '':'' @ url1 else url1);
             url3 = (if qry \<noteq> [] then url2 @ ''?'' @ qry else url2)
         in if frag \<noteq> [] then url3 @ ''#'' @ frag else url3))"

definition urlunparse ::
  "string \<times> string \<times> string \<times> string \<times> string \<times> string \<Rightarrow> string" where
  "urlunparse d =
     (case d of (sch, nl, url, prm, qry, frag) \<Rightarrow>
        urlunsplit (sch, nl, (if prm \<noteq> [] then url @ '';'' @ prm else url), qry, frag))"

text \<open>
  \<^verbatim>\<open>unquote\<close>: each \<^verbatim>\<open>%\<close> followed by two hexadecimal digits is the character with that
  code; any other \<^verbatim>\<open>%\<close> stays.
\<close>

definition hexval :: "char \<Rightarrow> nat option" where
  "hexval c = map_of (zip ''0123456789ABCDEFabcdef''
                [0, 1, 2, 3, 4, 5, 6, 7, 8, 9, 10, 11, 12, 13, 14, 15, 10, 11, 12, 13, 14, 15]) c"

definition unquote_item :: "string \<Rightarrow> string" where
  "unquote_item item =
     (case item of
        a # b # rest \<Rightarrow>
          (case (hexval a, hexval b) of
             (Some h, Some l) \<Rightarrow> char_of (16 * h + l) # rest
           | _ \<Rightarrow> CHR ''%'' # item)
      | _ \<Rightarrow> CHR ''%'' # item)"

definition unquote :: "string \<Rightarrow> string" where
  "unquote s =
     (case split (CHR ''%'') s of
        [] \<Rightarrow> s
      | b # bits \<Rightarrow> b @ concat (map unquote_item bits))"

definition plus_to_space :: "string \<Rightarrow> string" where
  "plus_to_space s = map (\<lambda>c. if c = CHR ''+'' then CHR '' '' else c) s"

text \<open>
  \<^verbatim>\<open>parse_qsl(qs)\<close>: the fields are separated by \<^verbatim>\<open>&\<close> and by \<^verbatim>\<open>;\<close>; a field without
  \<^verbatim>\<open>=\<close> and a field with an empty value are skipped.
\<close>

definition parse_qsl_field :: "string \<Rightarrow> (string \<times> string) list" where
  "parse_qsl_field name_value =
     (if name_value = [] then []
      else if CHR ''='' \<notin> set name_value then []
      else (let (n, v) = split1 (CHR ''='') name_value
            in if v \<noteq> [] then [(unquote (plus_to_space n), unquote (plus_to_space v))]
               else []))"

definition parse_qsl :: "string \<Rightarrow> (string \<times> string) list" where
  "parse_qsl qs =
     concat (map parse_qsl_field (concat (map (split (CHR '';'')) (split (CHR ''&'') qs))))"

text \<open>\<^verbatim>\<open>parse_qs(qs)\<close>: the dictionary from each name to the list of its values, in order.\<close>

fun parse_qs_loop :: "(string \<times> string) list \<Rightarrow> (string \<rightharpoonup> string list) \<Rightarrow>
    (string \<rightharpoonup> string list)" where
  "parse_qs_loop [] d = d"
| "parse_qs_loop ((name, val) # rest) d =
     parse_qs_loop rest
       (case d name of Some vs \<Rightarrow> d(name \<mapsto> vs @ [val]) | None \<Rightarrow> d(name \<mapsto> [val]))"

definition parse_qs :: "string \<Rightarrow> (string \<rightharpoonup> string list)" where
  "parse_qs qs = parse_qs_loop (parse_qsl qs) Map.empty"

subsection \<open>Federation membership and the canonical entity id\<close>

text \<open>
  \<^verbatim>\<open>_is_in_edugain\<close> (lines 285-289): \<^verbatim>\<open>pqs.get("inedugain", ["true"])\<close> is the list of the
  parameter's values, or \<^verbatim>\<open>["true"]\<close> when the query has no such parameter.
\<close>

definition is_in_edugain :: "string \<Rightarrow> error + bool" where
  "is_in_edugain entity_id =
     (case urlparse entity_id of
        Inl e \<Rightarrow> Inl e
      | Inr parsed \<Rightarrow>
          (let pqs = parse_qs (query parsed)
           in Inr (''true'' \<in> set (case pqs ''inedugain'' of
                                      Some vs \<Rightarrow> vs | None \<Rightarrow> [''true'']))))"

text \<open>\<^verbatim>\<open>_parse_idp_entity_id\<close> (lines 291-296).\<close>

definition parse_idp_entity_id :: "string \<Rightarrow> error + string" where
  "parse_idp_entity_id entity_id =
     (case urlparse entity_id of
        Inl e \<Rightarrow> Inl e
      | Inr parsed \<Rightarrow>
          Inr (urlunparse (scheme parsed, netloc parsed, path parsed, params parsed, [], [])))"

subsection \<open>The SAML library and the other collaborators\<close>

text \<open>
  What the SAML library returns for a parsed and validated response, as far as
  \<^verbatim>\<open>parse_auth_response\<close> reads it: the name id of the assertion's subject, the attribute
  bag \<^verbatim>\<open>ava\<close>, the instants of the authentication statements and the text of the issuer.
\<close>

record authn_response =
  name_id :: NameID
  ava :: identity
  authn_statement :: "string list"
  assertion_issuer :: string

record ht_args =
  headers :: "(string \<times> string) list"
  data :: "string list"

text \<open>
  The functions of the SAML library and of \<^verbatim>\<open>svs.filter\<close> that the module calls are
  parameters. \<open>parse_authn_request_response\<close> returns \<open>Inl\<close> the message of the exception
  when the library rejects the response; the library cannot raise the \<^verbatim>\<open>AuthnFailure\<close> of
  this module. \<open>get_affiliation_function\<close> is the function of \<^verbatim>\<open>svs.filter\<close> that gives, for
  a scope, the test of the attribute bag.
\<close>

record library =
  parse_authn_request_response :: "SamlSp \<Rightarrow> string \<Rightarrow> binding \<Rightarrow> string + authn_response"
  apply_binding :: "SamlSp \<Rightarrow> binding \<Rightarrow> string \<Rightarrow> string \<Rightarrow> string \<Rightarrow> ht_args"
  str_request :: "AuthnRequest \<Rightarrow> string"
  get_affiliation_function :: "string list \<Rightarrow> identity \<Rightarrow> bool"

text \<open>
  \<^verbatim>\<open>SamlSp.parse_auth_response\<close> (lines 126-141). \<^verbatim>\<open>not SAMLResponse\<close> holds for \<^verbatim>\<open>None\<close> and
  for the empty string. \<^verbatim>\<open>authn_statement[0]\<close> raises \<^verbatim>\<open>IndexError\<close> on an empty list.
\<close>

definition parse_auth_response ::
  "library \<Rightarrow> SamlSp \<Rightarrow> string option \<Rightarrow> binding \<Rightarrow>
   error + NameID \<times> identity \<times> string \<times> string" where
  "parse_auth_response L self SAMLResponse bnd =
     (if SAMLResponse = None \<or> SAMLResponse = Some []
      then Inl (AuthnFailure ''You are not authorized!'')
      else (case parse_authn_request_response L self (the SAMLResponse) bnd of
              Inl m \<Rightarrow> Inl (LibraryError m)
            | Inr response \<Rightarrow>
                (case first_item (authn_statement response) of
                   Inl e \<Rightarrow> Inl e
                 | Inr authn_instant \<Rightarrow>
                     Inr (name_id response, ava response, authn_instant,
                          assertion_issuer response))))"

text \<open>
  The transport response of \<^verbatim>\<open>oic.utils.http_util\<close>: \<^verbatim>\<open>SeeOther(location)\<close> or
  \<^verbatim>\<open>Response(body, headers=...)\<close>.
\<close>

datatype http_response =
    SeeOther string
  | Response string "(string \<times> string) list"

text \<open>
  \<^verbatim>\<open>SamlSp.redirect_to_auth\<close> (lines 169-205). The \<^verbatim>\<open>for ... else\<close> loop takes the first
  header named \<^verbatim>\<open>Location\<close> and raises when there is none.
\<close>

definition redirect_to_auth ::
  "'s generators \<Rightarrow> library \<Rightarrow> SamlSp \<Rightarrow> metadata \<Rightarrow> string \<Rightarrow> string \<Rightarrow> 's \<Rightarrow>
   (error + http_response) \<times> 's" where
  "redirect_to_auth G L self mds entity_id relay_state s =
     (case construct_authn_request G self entity_id mds (nameid_policy self)
             (response_url self) [] s of
        (Inl e, s') \<Rightarrow> (Inl e, s')
      | (Inr (request, bnd), s') \<Rightarrow>
          (let msg_str = (case sign_func self of
                            Some f \<Rightarrow> f request
                          | None \<Rightarrow> str_request L request);
               args = apply_binding L self bnd msg_str (destination request) relay_state
           in if bnd = BINDING_HTTP_REDIRECT
              then (case find (\<lambda>(param, val). param = ''Location'') (headers args) of
                      Some (param, val) \<Rightarrow> (Inr (SeeOther val), s')
                    | None \<Rightarrow> (Inl (ServiceErrorException ''Parameter error''), s'))
              else (Inr (Response (concat (data args)) (headers args)), s')))"

subsection \<open>The handlers of the backend\<close>

text \<open>
  How a handler ends: it returns a value, or the transaction is aborted with an error
  for the relying party, or the transaction ends with a negative result that carries the
  entity id of the IdP, or an exception that the handler does not catch leaves it.
\<close>

datatype 'a outcome =
    Returned 'a
  | Abort string
  | Negative string string
  | Raised error

text \<open>
  Modelled from the spec: \<^verbatim>\<open>abort_with_client_error\<close> and \<^verbatim>\<open>negative_transaction_response\<close>
  are imported from \<^verbatim>\<open>svs.message_utils\<close>, which is not among the sources. The spec says
  of the failures that "each is either a terminal abort of the transaction (reported to
  the RP as an error) or a terminal negative result", and that after a false affiliation
  "the transaction terminates with a negative (not erroneous) result, carrying the
  asserting IdP's entity id": a call of either function does not return to the handler,
  which ends with the outcome below. The message and the entity id are the arguments of
  the call in the source.
\<close>

definition abort_with_client_error :: "string \<Rightarrow> 'a outcome" where
  "abort_with_client_error message = Abort message"

definition negative_transaction_response :: "string \<Rightarrow> string \<Rightarrow> 'a outcome" where
  "negative_transaction_response message idp_entity_id = Negative message idp_entity_id"

text \<open>The part of the transaction session that the handlers read.\<close>

record session =
  scope :: "string list"
  client_id :: string

text \<open>
  \<^verbatim>\<open>InAcademiaSAMLBackend.disco\<close> (lines 263-283). The canonical entity id is computed
  first, then the membership test; the request is built and sent inside the \<^verbatim>\<open>try\<close>,
  whose handlers catch \<^verbatim>\<open>ServiceErrorException\<close> (with its subclass) and
  \<^verbatim>\<open>ConnectionError\<close>. \<^verbatim>\<open>response_to_cherrypy\<close> (not among the sources) hands the transport
  response to the web framework; the handler's value is that response.
\<close>

definition disco ::
  "'s generators \<Rightarrow> library \<Rightarrow> backend \<Rightarrow> string \<Rightarrow> string \<Rightarrow> session \<Rightarrow> 's \<Rightarrow>
   http_response outcome \<times> 's" where
  "disco G L self entity_id transaction_id transaction_session s =
     (case choose_service_provider self (scope transaction_session) of
        Inl e \<Rightarrow> (Raised e, s)
      | Inr sp \<Rightarrow>
     (case parse_idp_entity_id entity_id of
        Inl e \<Rightarrow> (Raised e, s)
      | Inr idp_entity_id \<Rightarrow>
     (case is_in_edugain entity_id of
        Inl e \<Rightarrow> (Raised e, s)
      | Inr member \<Rightarrow>
          if \<not> member
          then (abort_with_client_error
                  (''Non-edugain IdP '' @ [CHR 0x27] @ idp_entity_id @ [CHR 0x27] @
                   '' returned from discovery server''), s)
          else (case redirect_to_auth G L sp (metadata self) idp_entity_id transaction_id s of
                  (Inr resp, s') \<Rightarrow> (Returned resp, s')
                | (Inl e, s') \<Rightarrow>
                    if is_ServiceErrorException e
                    then (abort_with_client_error
                            ''Could not create SAML authentication request.'', s')
                    else if is_ConnectionError e
                    then (abort_with_client_error ''Could not contact SAML MDQ.'', s')
                    else (Raised e, s')))))"

text \<open>
  \<^verbatim>\<open>InAcademiaSAMLBackend.acs\<close> (lines 298-334). The first handler of the \<^verbatim>\<open>try\<close> catches
  \<^verbatim>\<open>AuthnFailure\<close>, the second every other exception. The value returned is the tuple of
  user id, affiliation, identity, authentication instant and entity id of the IdP.
\<close>

definition acs ::
  "'s generators \<Rightarrow> library \<Rightarrow> backend \<Rightarrow> string option \<Rightarrow> binding \<Rightarrow> string \<Rightarrow> session \<Rightarrow>
   's \<Rightarrow> (string \<times> bool \<times> identity \<times> string \<times> string) outcome \<times> 's" where
  "acs G L self SAMLResponse bnd transaction_id transaction_session s =
     (let scp = scope transaction_session
      in case choose_service_provider self scp of
           Inl e \<Rightarrow> (Raised e, s)
         | Inr sp \<Rightarrow>
        (case parse_auth_response L sp SAMLResponse bnd of
           Inl e \<Rightarrow>
             if is_AuthnFailure e
             then (abort_with_client_error ''User not authenticated at IdP.'', s)
             else (abort_with_client_error
                     ''Could not parse Authentication Response from IdP.'', s)
         | Inr (nid, ident, auth_time, idp_entity_id) \<Rightarrow>
             (let affiliation = get_affiliation_function L scp ident
              in if \<not> affiliation
                 then (negative_transaction_response
                         ''The user does not have the correct affiliation.'' idp_entity_id, s)
                 else if PERSISTENT_NAMEID \<in> set scp
                 then (case get_name_id nid ident of
                         Inl e \<Rightarrow> (Raised e, s)
                       | Inr None \<Rightarrow>
                           (negative_transaction_response
                              ''The users identity could not be provided.'' idp_entity_id, s)
                       | Inr (Some user_id) \<Rightarrow>
                           (Returned (user_id, affiliation, ident, auth_time, idp_entity_id), s))
                 else (let (user_id, s') = rndstr G 256 s
                       in (Returned (user_id, affiliation, ident, auth_time, idp_entity_id),
                           s')))))"

subsection \<open>Concrete inputs\<close>

text \<open>
  A configuration with the two service providers, metadata for three IdPs (one that
  offers both bindings, one that offers HTTP-Redirect only, one that offers neither),
  generators on a counter, and a library that accepts one response.
\<close>

definition demo_conf :: "string \<Rightarrow> sp_config" where
  "demo_conf key =
     \<lparr> entityid = ''https://sp.example/'' @ key,
       endpoints = [''assertion_consumer_service'' \<mapsto>
                      [(''https://sp.example/acs/post'', BINDING_HTTP_POST)],
                    ''discovery_response'' \<mapsto>
                      [(''https://sp.example/disco'', ''urn:oasis:names:tc:SAML:profiles:SSO:idp-discovery-protocol'')]],
       name_id_format = [''urn:oasis:names:tc:SAML:2.0:nameid-format:'' @ key] \<rparr>"

definition demo_config :: "(string \<times> sp_config) list" where
  "demo_config = [(PERSISTENT_NAMEID, demo_conf PERSISTENT_NAMEID),
                  (TRANSIENT_NAMEID, demo_conf TRANSIENT_NAMEID)]"

definition demo_sp :: "string \<Rightarrow> SamlSp" where
  "demo_sp key =
     \<lparr> idp_query_param = ''IdpQuery'',
       conf = demo_conf key,
       disco_srv = ''https://ds.example'',
       sp_force_authn = True,
       sign_func = None,
       response_binding = BINDING_HTTP_POST,
       response_url = ''https://sp.example/acs/post'',
       nameid_policy = \<lparr> format = ''urn:oasis:names:tc:SAML:2.0:nameid-format:'' @ key,
                         allow_create = ''false'' \<rparr>,
       allow_unsolicited = True,
       sp_issuer = \<lparr> issuer_text = ''https://sp.example/'' @ key,
                     issuer_format = NAMEID_FORMAT_ENTITY \<rparr> \<rparr>"

definition demo_dests_both :: destinations where
  "demo_dests_both =
     [BINDING_HTTP_REDIRECT \<mapsto> [[''location'' \<mapsto> ''https://idp.example/redirect'']],
      BINDING_HTTP_POST \<mapsto> [[''location'' \<mapsto> ''https://idp.example/post'']]]"

definition demo_dests_redirect :: destinations where
  "demo_dests_redirect =
     [BINDING_HTTP_REDIRECT \<mapsto> [[''location'' \<mapsto> ''https://redirect.example/redirect'']]]"

definition demo_dests_soap :: destinations where
  "demo_dests_soap =
     [''urn:oasis:names:tc:SAML:2.0:bindings:SOAP'' \<mapsto>
        [[''location'' \<mapsto> ''https://soap.example/soap'']]]"

definition demo_mds :: metadata where
  "demo_mds idp =
     (if idp = ''https://idp.example/sso'' then Inr (Some demo_dests_both)
      else if idp = ''https://redirect.example/sso'' then Inr (Some demo_dests_redirect)
      else if idp = ''https://soap.example/sso'' then Inr (Some demo_dests_soap)
      else Inr None)"

definition demo_backend :: backend where
  "demo_backend =
     \<lparr> SP = [PERSISTENT_NAMEID \<mapsto> demo_sp PERSISTENT_NAMEID,
              TRANSIENT_NAMEID \<mapsto> demo_sp TRANSIENT_NAMEID],
       metadata = demo_mds \<rparr>"

definition demo_G :: "nat generators" where
  "demo_G = \<lparr> sid = (\<lambda>n. (''id-'' @ replicate n (CHR ''i''), Suc n)),
              instant = (\<lambda>n. (''2014-06-01T12:00:00Z'', n)),
              rndstr = (\<lambda>k n. (replicate k (CHR ''r''), Suc n)) \<rparr>"

definition demo_name_id :: NameID where
  "demo_name_id = \<lparr> nameid_format = Some ''urn:oasis:names:tc:SAML:2.0:nameid-format:transient'',
                    nameid_text = Some ''abc123'' \<rparr>"

definition demo_student :: identity where
  "demo_student = [''eduPersonAffiliation'' \<mapsto> [''student''],
                   ''eduPersonTargetedID'' \<mapsto> [''eptid-1'', ''eptid-2''],
                   ''eduPersonPrincipalName'' \<mapsto> [''user@idp.example'']]"

definition demo_visitor :: identity where
  "demo_visitor = [''eduPersonTargetedID'' \<mapsto> []]"

definition demo_L :: library where
  "demo_L =
     \<lparr> parse_authn_request_response =
         (\<lambda>sp r b. if r = ''student'' then
                      Inr \<lparr> name_id = demo_name_id, ava = demo_student,
                            authn_statement = [''2014-06-01T11:59:00Z''],
                            assertion_issuer = ''https://idp.example/sso'' \<rparr>
                    else if r = ''visitor'' then
                      Inr \<lparr> name_id = demo_name_id, ava = demo_visitor,
                            authn_statement = [''2014-06-01T11:59:00Z''],
                            assertion_issuer = ''https://idp.example/sso'' \<rparr>
                    else Inl ''Signature missing''),
       apply_binding = (\<lambda>sp b msg dest relay.
                          \<lparr> headers = [(''Location'', dest)], data = [msg, relay] \<rparr>),
       str_request = (\<lambda>req. id req),
       get_affiliation_function = (\<lambda>scp ident. ident ''eduPersonAffiliation'' \<noteq> None) \<rparr>"

definition demo_session :: "string \<Rightarrow> session" where
  "demo_session key = \<lparr> scope = [''openid'', key], client_id = ''rp-1'' \<rparr>"

text \<open>
  An attribute bag in which \<^verbatim>\<open>eduPersonTargetedID\<close> is present with no value, beside a
  principal name, and a library that returns it for every response.
\<close>

definition demo_member :: identity where
  "demo_member = [''eduPersonAffiliation'' \<mapsto> [''member''],
                  ''eduPersonTargetedID'' \<mapsto> [],
                  ''eduPersonPrincipalName'' \<mapsto> [''user@idp.example'']]"

definition demo_L_member :: library where
  "demo_L_member =
     demo_L \<lparr> parse_authn_request_response :=
                (\<lambda>sp r b. Inr \<lparr> name_id = demo_name_id, ava = demo_member,
                                 authn_statement = [''2014-06-01T11:59:00Z''],
                                 assertion_issuer = ''https://idp.example/sso'' \<rparr>) \<rparr>"

section \<open>Properties\<close>

subsection \<open>The concrete backend\<close>

lemma demo_backend_init:
  "backend_init demo_config demo_mds ''https://ds.example'' = Inr demo_backend"
  by (simp add: backend_init_def demo_config_def SamlSp_init_def getitem_def first_item_def
      demo_conf_def demo_backend_def demo_sp_def PERSISTENT_NAMEID_def TRANSIENT_NAMEID_def)

lemma demo_backend_persistent:
  "SP demo_backend PERSISTENT_NAMEID = Some (demo_sp PERSISTENT_NAMEID)"
  by (simp add: demo_backend_def PERSISTENT_NAMEID_def TRANSIENT_NAMEID_def)

lemma demo_backend_transient:
  "SP demo_backend TRANSIENT_NAMEID = Some (demo_sp TRANSIENT_NAMEID)"
  by (simp add: demo_backend_def)

lemma demo_choose_persistent:
  "choose_service_provider demo_backend (scope (demo_session ''persistent'')) =
     Inr (demo_sp PERSISTENT_NAMEID)"
  by (simp add: choose_service_provider_def getitem_def demo_backend_persistent
      demo_session_def PERSISTENT_NAMEID_def [symmetric])

lemma demo_choose_transient:
  "choose_service_provider demo_backend (scope (demo_session ''transient'')) =
     Inr (demo_sp TRANSIENT_NAMEID)"
  by (simp add: choose_service_provider_def getitem_def demo_backend_transient
      demo_session_def PERSISTENT_NAMEID_def)

subsection \<open>Selection of the service provider\<close>

text \<open>
  C1. For every scope the selection is a function of the scope alone and returns a
  service provider: with both service providers in the registry (the constructor puts
  one in for each entry of the configuration), the durable one is returned when the
  token \<^verbatim>\<open>persistent\<close> is a member of the scope and the ephemeral one for every other scope.
\<close>

theorem choose_service_provider_total:
  assumes "SP self PERSISTENT_NAMEID = Some durable"
      and "SP self TRANSIENT_NAMEID = Some ephemeral"
  shows "choose_service_provider self scp =
           Inr (if ''persistent'' \<in> set scp then durable else ephemeral)"
  using assms by (simp add: choose_service_provider_def getitem_def PERSISTENT_NAMEID_def)

theorem choose_service_provider_total_witness:
  "SP demo_backend PERSISTENT_NAMEID = Some (demo_sp PERSISTENT_NAMEID) \<and>
   SP demo_backend TRANSIENT_NAMEID = Some (demo_sp TRANSIENT_NAMEID) \<and>
   choose_service_provider demo_backend [''openid'', ''persistent''] =
     Inr (demo_sp PERSISTENT_NAMEID) \<and>
   choose_service_provider demo_backend [''openid'', ''transient''] =
     Inr (demo_sp TRANSIENT_NAMEID) \<and>
   choose_service_provider demo_backend [] = Inr (demo_sp TRANSIENT_NAMEID)"
  using demo_backend_persistent demo_backend_transient
    choose_service_provider_total [OF demo_backend_persistent demo_backend_transient,
      of "[''openid'', ''persistent'']"]
    choose_service_provider_total [OF demo_backend_persistent demo_backend_transient,
      of "[''openid'', ''transient'']"]
    choose_service_provider_total [OF demo_backend_persistent demo_backend_transient,
      of "[]"]
  by simp

subsection \<open>Selection of the binding\<close>

lemma choose_binding_post:
  "BINDING_HTTP_POST \<in> dom dests \<Longrightarrow> choose_binding dests = Inr BINDING_HTTP_POST"
  by (simp add: choose_binding_def)

lemma choose_binding_redirect:
  "BINDING_HTTP_POST \<notin> dom dests \<Longrightarrow> BINDING_HTTP_REDIRECT \<in> dom dests \<Longrightarrow>
   choose_binding dests = Inr BINDING_HTTP_REDIRECT"
  by (simp add: choose_binding_def)

lemma choose_binding_neither:
  "BINDING_HTTP_POST \<notin> dom dests \<Longrightarrow> BINDING_HTTP_REDIRECT \<notin> dom dests \<Longrightarrow>
   choose_binding dests =
     Inl (ServiceErrorException ''IdP does not support http-post or http-redirect binding'')"
  by (simp add: choose_binding_def)

text \<open>The request builder returns when the first endpoint of the chosen binding has a location.\<close>

lemma construct_returns:
  assumes "mds idp = Inr (Some dests)" and "choose_binding dests = Inr b"
    and "dests b = Some (ep # eps)" and "ep ''location'' = Some loc"
  shows "\<exists>req s'. construct_authn_request G sp idp mds pol url idx s = (Inr (req, b), s') \<and>
           destination req = loc"
  using assms
  by (simp add: construct_authn_request_def getitem_def first_item_def Let_def split: prod.splits)

lemma construct_binding:
  assumes "mds idp = Inr (Some dests)"
    and "construct_authn_request G sp idp mds pol url idx s = (Inr (req, b), s')"
  shows "choose_binding dests = Inr b"
  using assms
  by (auto simp add: construct_authn_request_def Let_def split: sum.splits prod.splits)

text \<open>
  C2. When the metadata of the IdP offers HTTP-POST (with or without HTTP-Redirect), the
  request is built for HTTP-POST and the first HTTP-POST location; when it offers
  HTTP-Redirect and not HTTP-POST, for HTTP-Redirect; when it offers neither, the builder
  raises the exception for an unsupported binding, before a request id is drawn. No
  request is ever returned with another binding than the one this order gives.
\<close>

theorem binding_selection:
  assumes "mds idp = Inr (Some dests)"
  shows "(\<forall>ep eps loc. dests BINDING_HTTP_POST = Some (ep # eps) \<and> ep ''location'' = Some loc \<longrightarrow>
            (\<exists>req s'. construct_authn_request G sp idp mds pol url idx s =
                         (Inr (req, BINDING_HTTP_POST), s') \<and> destination req = loc)) \<and>
         (\<forall>ep eps loc. dests BINDING_HTTP_POST = None \<and>
            dests BINDING_HTTP_REDIRECT = Some (ep # eps) \<and> ep ''location'' = Some loc \<longrightarrow>
            (\<exists>req s'. construct_authn_request G sp idp mds pol url idx s =
                         (Inr (req, BINDING_HTTP_REDIRECT), s') \<and> destination req = loc)) \<and>
         (dests BINDING_HTTP_POST = None \<and> dests BINDING_HTTP_REDIRECT = None \<longrightarrow>
            construct_authn_request G sp idp mds pol url idx s =
              (Inl (ServiceErrorException
                      ''IdP does not support http-post or http-redirect binding''), s)) \<and>
         (\<forall>req b s'. construct_authn_request G sp idp mds pol url idx s = (Inr (req, b), s') \<longrightarrow>
            b = (if BINDING_HTTP_POST \<in> dom dests then BINDING_HTTP_POST
                 else BINDING_HTTP_REDIRECT) \<and> b \<in> dom dests)"
proof (intro conjI allI impI)
  fix ep eps loc
  assume h: "dests BINDING_HTTP_POST = Some (ep # eps) \<and> ep ''location'' = Some loc"
  then have c: "choose_binding dests = Inr BINDING_HTTP_POST"
    by (intro choose_binding_post) auto
  from h have "dests BINDING_HTTP_POST = Some (ep # eps)" and "ep ''location'' = Some loc"
    by simp_all
  then show "\<exists>req s'. construct_authn_request G sp idp mds pol url idx s =
      (Inr (req, BINDING_HTTP_POST), s') \<and> destination req = loc"
    by (rule construct_returns [where mds = mds and idp = idp and dests = dests, OF assms c])
next
  fix ep eps loc
  assume h: "dests BINDING_HTTP_POST = None \<and>
    dests BINDING_HTTP_REDIRECT = Some (ep # eps) \<and> ep ''location'' = Some loc"
  then have c: "choose_binding dests = Inr BINDING_HTTP_REDIRECT"
    by (intro choose_binding_redirect) auto
  from h have "dests BINDING_HTTP_REDIRECT = Some (ep # eps)" and "ep ''location'' = Some loc"
    by simp_all
  then show "\<exists>req s'. construct_authn_request G sp idp mds pol url idx s =
      (Inr (req, BINDING_HTTP_REDIRECT), s') \<and> destination req = loc"
    by (rule construct_returns [where mds = mds and idp = idp and dests = dests, OF assms c])
next
  assume h: "dests BINDING_HTTP_POST = None \<and> dests BINDING_HTTP_REDIRECT = None"
  then have "choose_binding dests =
     Inl (ServiceErrorException ''IdP does not support http-post or http-redirect binding'')"
    by (intro choose_binding_neither) auto
  with assms show "construct_authn_request G sp idp mds pol url idx s =
      (Inl (ServiceErrorException
              ''IdP does not support http-post or http-redirect binding''), s)"
    by (simp add: construct_authn_request_def)
next
  fix req b s'
  assume "construct_authn_request G sp idp mds pol url idx s = (Inr (req, b), s')"
  then have c: "choose_binding dests = Inr b"
    by (rule construct_binding [where mds = mds and idp = idp and dests = dests, OF assms])
  then show "b = (if BINDING_HTTP_POST \<in> dom dests then BINDING_HTTP_POST
                 else BINDING_HTTP_REDIRECT)"
    by (auto simp add: choose_binding_def split: if_splits)
  from c show "b \<in> dom dests"
    by (auto simp add: choose_binding_def split: if_splits)
qed

lemma bindings_distinct:
  "BINDING_HTTP_POST \<noteq> BINDING_HTTP_REDIRECT"
  "BINDING_HTTP_POST \<noteq> ''urn:oasis:names:tc:SAML:2.0:bindings:SOAP''"
  "BINDING_HTTP_REDIRECT \<noteq> ''urn:oasis:names:tc:SAML:2.0:bindings:SOAP''"
  by (simp_all add: BINDING_HTTP_POST_def BINDING_HTTP_REDIRECT_def)

theorem binding_selection_witness:
  "demo_mds ''https://idp.example/sso'' = Inr (Some demo_dests_both) \<and>
   demo_dests_both BINDING_HTTP_REDIRECT \<noteq> None \<and>
   (\<exists>req s'. construct_authn_request demo_G (demo_sp PERSISTENT_NAMEID)
                 ''https://idp.example/sso'' demo_mds (nameid_policy (demo_sp PERSISTENT_NAMEID))
                 ''https://sp.example/acs/post'' [] 0 =
                 (Inr (req, BINDING_HTTP_POST), s') \<and>
               destination req = ''https://idp.example/post'') \<and>
   demo_mds ''https://redirect.example/sso'' = Inr (Some demo_dests_redirect) \<and>
   (\<exists>req s'. construct_authn_request demo_G (demo_sp PERSISTENT_NAMEID)
                 ''https://redirect.example/sso'' demo_mds (nameid_policy (demo_sp PERSISTENT_NAMEID))
                 ''https://sp.example/acs/post'' [] 0 =
                 (Inr (req, BINDING_HTTP_REDIRECT), s') \<and>
               destination req = ''https://redirect.example/redirect'') \<and>
   demo_mds ''https://soap.example/sso'' = Inr (Some demo_dests_soap) \<and>
   construct_authn_request demo_G (demo_sp PERSISTENT_NAMEID)
     ''https://soap.example/sso'' demo_mds (nameid_policy (demo_sp PERSISTENT_NAMEID))
                 ''https://sp.example/acs/post'' [] 0 =
     (Inl (ServiceErrorException
             ''IdP does not support http-post or http-redirect binding''), 0)"
proof -
  have m1: "demo_mds ''https://idp.example/sso'' = Inr (Some demo_dests_both)"
    by (simp add: demo_mds_def)
  have m2: "demo_mds ''https://redirect.example/sso'' = Inr (Some demo_dests_redirect)"
    by (simp add: demo_mds_def)
  have m3: "demo_mds ''https://soap.example/sso'' = Inr (Some demo_dests_soap)"
    by (simp add: demo_mds_def)
  have d1: "demo_dests_both BINDING_HTTP_POST =
              Some ([''location'' \<mapsto> ''https://idp.example/post''] # []) \<and>
            [''location'' \<mapsto> ''https://idp.example/post''] ''location'' =
              Some ''https://idp.example/post''"
    by (simp add: demo_dests_both_def)
  have d1': "demo_dests_both BINDING_HTTP_REDIRECT \<noteq> None"
    by (simp add: demo_dests_both_def bindings_distinct)
  have d2: "demo_dests_redirect BINDING_HTTP_POST = None \<and>
            demo_dests_redirect BINDING_HTTP_REDIRECT =
              Some ([''location'' \<mapsto> ''https://redirect.example/redirect''] # []) \<and>
            [''location'' \<mapsto> ''https://redirect.example/redirect''] ''location'' =
              Some ''https://redirect.example/redirect''"
    by (simp add: demo_dests_redirect_def bindings_distinct)
  have d3: "demo_dests_soap BINDING_HTTP_POST = None \<and>
            demo_dests_soap BINDING_HTTP_REDIRECT = None"
    by (simp add: demo_dests_soap_def bindings_distinct)
  note t1 = binding_selection [where mds = demo_mds and idp = "''https://idp.example/sso''" and dests = demo_dests_both
      and G = demo_G and sp = "demo_sp PERSISTENT_NAMEID" and pol = "nameid_policy (demo_sp PERSISTENT_NAMEID)"
      and url = "''https://sp.example/acs/post''" and idx = "[]" and s = 0, OF m1]
  note t2 = binding_selection [where mds = demo_mds and idp = "''https://redirect.example/sso''" and dests = demo_dests_redirect
      and G = demo_G and sp = "demo_sp PERSISTENT_NAMEID" and pol = "nameid_policy (demo_sp PERSISTENT_NAMEID)"
      and url = "''https://sp.example/acs/post''" and idx = "[]" and s = 0, OF m2]
  note t3 = binding_selection [where mds = demo_mds and idp = "''https://soap.example/sso''" and dests = demo_dests_soap
      and G = demo_G and sp = "demo_sp PERSISTENT_NAMEID" and pol = "nameid_policy (demo_sp PERSISTENT_NAMEID)"
      and url = "''https://sp.example/acs/post''" and idx = "[]" and s = 0, OF m3]
  from t1 d1 have r1: "\<exists>req s'. construct_authn_request demo_G (demo_sp PERSISTENT_NAMEID)
                 ''https://idp.example/sso'' demo_mds (nameid_policy (demo_sp PERSISTENT_NAMEID))
                 ''https://sp.example/acs/post'' [] 0 =
                 (Inr (req, BINDING_HTTP_POST), s') \<and>
               destination req = ''https://idp.example/post''"
    by blast
  from t2 d2 have r2: "\<exists>req s'. construct_authn_request demo_G (demo_sp PERSISTENT_NAMEID)
                 ''https://redirect.example/sso'' demo_mds (nameid_policy (demo_sp PERSISTENT_NAMEID))
                 ''https://sp.example/acs/post'' [] 0 =
                 (Inr (req, BINDING_HTTP_REDIRECT), s') \<and>
               destination req = ''https://redirect.example/redirect''"
    by blast
  from t3 d3 have r3: "construct_authn_request demo_G (demo_sp PERSISTENT_NAMEID)
     ''https://soap.example/sso'' demo_mds (nameid_policy (demo_sp PERSISTENT_NAMEID))
                 ''https://sp.example/acs/post'' [] 0 =
     (Inl (ServiceErrorException
             ''IdP does not support http-post or http-redirect binding''), 0)"
    by blast
  from m1 d1' r1 m2 r2 m3 r3 show ?thesis by blast
qed

subsection \<open>The durable user identifier\<close>

lemma acs_persistent:
  assumes "choose_service_provider self (scope ts) = Inr sp"
    and "parse_auth_response L sp R bnd = Inr (n, ident, t, idp)"
    and "get_affiliation_function L (scope ts) ident"
    and "PERSISTENT_NAMEID \<in> set (scope ts)"
  shows "acs G L self R bnd tid ts s =
           ((case get_name_id n ident of
               Inl e \<Rightarrow> Raised e
             | Inr None \<Rightarrow> Negative ''The users identity could not be provided.'' idp
             | Inr (Some user_id) \<Rightarrow> Returned (user_id, True, ident, t, idp)), s)"
  using assms
  by (simp add: acs_def negative_transaction_response_def split: sum.splits option.splits)

text \<open>
  The order of \<^verbatim>\<open>get_name_id\<close>, which the response handler calls exactly for a scope with
  the token \<^verbatim>\<open>persistent\<close>, on identities whose attributes have a value: the text of the
  asserted name id when its format is the persistent NameID format, whatever the
  attributes are; otherwise the first value of \<^verbatim>\<open>eduPersonTargetedID\<close> when that attribute
  has one; otherwise, when that attribute is absent, the first value of
  \<^verbatim>\<open>eduPersonPrincipalName\<close>; \<^verbatim>\<open>None\<close> when both are absent. Under another format the text
  of the name id has no influence on the result.
\<close>

lemma get_name_id_precedence:
  "(nameid_format n = Some NAMEID_FORMAT_PERSISTENT \<longrightarrow>
      get_name_id n ident = Inr (nameid_text n)) \<and>
   (nameid_format n \<noteq> Some NAMEID_FORMAT_PERSISTENT \<longrightarrow>
      (\<forall>v vs. ident ''eduPersonTargetedID'' = Some (v # vs) \<longrightarrow>
         get_name_id n ident = Inr (Some v)) \<and>
      (\<forall>v vs. ident ''eduPersonTargetedID'' = None \<and>
         ident ''eduPersonPrincipalName'' = Some (v # vs) \<longrightarrow>
         get_name_id n ident = Inr (Some v)) \<and>
      (ident ''eduPersonTargetedID'' = None \<and> ident ''eduPersonPrincipalName'' = None \<longrightarrow>
         get_name_id n ident = Inr None) \<and>
      (\<forall>tx. get_name_id (n\<lparr>nameid_text := tx\<rparr>) ident = get_name_id n ident)) \<and>
   (choose_service_provider self (scope ts) = Inr sp \<and>
      parse_auth_response L sp R bnd = Inr (n, ident, t, idp) \<and>
      get_affiliation_function L (scope ts) ident \<and>
      ''persistent'' \<in> set (scope ts) \<longrightarrow>
      acs G L self R bnd tid ts s =
        ((case get_name_id n ident of
            Inl e \<Rightarrow> Raised e
          | Inr None \<Rightarrow> Negative ''The users identity could not be provided.'' idp
          | Inr (Some user_id) \<Rightarrow> Returned (user_id, True, ident, t, idp)), s))"
proof (intro conjI impI allI)
  assume "nameid_format n = Some NAMEID_FORMAT_PERSISTENT"
  then show "get_name_id n ident = Inr (nameid_text n)"
    by (simp add: get_name_id_def)
next
  fix v vs
  assume "nameid_format n \<noteq> Some NAMEID_FORMAT_PERSISTENT"
    and "ident ''eduPersonTargetedID'' = Some (v # vs)"
  then show "get_name_id n ident = Inr (Some v)"
    by (simp add: get_name_id_def first_item_def)
next
  fix v vs
  assume "nameid_format n \<noteq> Some NAMEID_FORMAT_PERSISTENT"
    and "ident ''eduPersonTargetedID'' = None \<and>
         ident ''eduPersonPrincipalName'' = Some (v # vs)"
  then show "get_name_id n ident = Inr (Some v)"
    by (simp add: get_name_id_def first_item_def)
next
  assume "nameid_format n \<noteq> Some NAMEID_FORMAT_PERSISTENT"
    and "ident ''eduPersonTargetedID'' = None \<and> ident ''eduPersonPrincipalName'' = None"
  then show "get_name_id n ident = Inr None"
    by (simp add: get_name_id_def)
next
  fix tx
  assume "nameid_format n \<noteq> Some NAMEID_FORMAT_PERSISTENT"
  then show "get_name_id (n\<lparr>nameid_text := tx\<rparr>) ident = get_name_id n ident"
    by (simp add: get_name_id_def)
next
  assume h: "choose_service_provider self (scope ts) = Inr sp \<and>
      parse_auth_response L sp R bnd = Inr (n, ident, t, idp) \<and>
      get_affiliation_function L (scope ts) ident \<and>
      ''persistent'' \<in> set (scope ts)"
  then have "PERSISTENT_NAMEID \<in> set (scope ts)"
    by (simp add: PERSISTENT_NAMEID_def)
  with h show "acs G L self R bnd tid ts s =
        ((case get_name_id n ident of
            Inl e \<Rightarrow> Raised e
          | Inr None \<Rightarrow> Negative ''The users identity could not be provided.'' idp
          | Inr (Some user_id) \<Rightarrow> Returned (user_id, True, ident, t, idp)), s)"
    by (intro acs_persistent) auto
qed

lemma demo_parse_student:
  "parse_auth_response demo_L sp (Some ''student'') bnd =
     Inr (demo_name_id, demo_student, ''2014-06-01T11:59:00Z'', ''https://idp.example/sso'')"
  by (simp add: parse_auth_response_def demo_L_def first_item_def)

lemma demo_parse_visitor:
  "parse_auth_response demo_L sp (Some ''visitor'') bnd =
     Inr (demo_name_id, demo_visitor, ''2014-06-01T11:59:00Z'', ''https://idp.example/sso'')"
  by (simp add: parse_auth_response_def demo_L_def first_item_def)

lemma demo_name_id_not_persistent:
  "nameid_format demo_name_id \<noteq> Some NAMEID_FORMAT_PERSISTENT"
  by (simp add: demo_name_id_def NAMEID_FORMAT_PERSISTENT_def)

lemma get_name_id_precedence_demo:
  "get_name_id \<lparr> nameid_format = Some NAMEID_FORMAT_PERSISTENT, nameid_text = Some ''abc123'' \<rparr>
     demo_student = Inr (Some ''abc123'') \<and>
   nameid_format demo_name_id \<noteq> Some NAMEID_FORMAT_PERSISTENT \<and>
   get_name_id demo_name_id demo_student = Inr (Some ''eptid-1'') \<and>
   get_name_id demo_name_id [''eduPersonPrincipalName'' \<mapsto> [''user@idp.example'']] =
     Inr (Some ''user@idp.example'') \<and>
   get_name_id demo_name_id Map.empty = Inr None \<and>
   acs demo_G demo_L demo_backend (Some ''student'') BINDING_HTTP_POST ''tid''
     (demo_session ''persistent'') 0 =
     (Returned (''eptid-1'', True, demo_student, ''2014-06-01T11:59:00Z'',
                ''https://idp.example/sso''), 0)"
proof -
  let ?p = "\<lparr> nameid_format = Some NAMEID_FORMAT_PERSISTENT, nameid_text = Some ''abc123'' \<rparr>"
  have a: "get_name_id ?p demo_student = Inr (Some ''abc123'')"
    using get_name_id_precedence [where n = ?p and ident = demo_student, THEN conjunct1] by simp
  have b: "get_name_id demo_name_id demo_student = Inr (Some ''eptid-1'')"
    using get_name_id_precedence [where n = demo_name_id and ident = demo_student,
        THEN conjunct2, THEN conjunct1] demo_name_id_not_persistent
    by (simp add: demo_student_def)
  have c: "get_name_id demo_name_id [''eduPersonPrincipalName'' \<mapsto> [''user@idp.example'']] =
     Inr (Some ''user@idp.example'')"
    using get_name_id_precedence [where n = demo_name_id
        and ident = "[''eduPersonPrincipalName'' \<mapsto> [''user@idp.example'']]",
        THEN conjunct2, THEN conjunct1]
      demo_name_id_not_persistent
    by simp
  have d: "get_name_id demo_name_id Map.empty = Inr None"
    using get_name_id_precedence [where n = demo_name_id and ident = Map.empty,
        THEN conjunct2, THEN conjunct1] demo_name_id_not_persistent
    by simp
  have aff: "get_affiliation_function demo_L (scope (demo_session ''persistent'')) demo_student"
    by (simp add: demo_L_def demo_student_def)
  have mem: "''persistent'' \<in> set (scope (demo_session ''persistent''))"
    by (simp add: demo_session_def)
  have "acs demo_G demo_L demo_backend (Some ''student'') BINDING_HTTP_POST ''tid''
          (demo_session ''persistent'') (0::nat) =
        ((case get_name_id demo_name_id demo_student of
            Inl e \<Rightarrow> Raised e
          | Inr None \<Rightarrow>
              Negative ''The users identity could not be provided.'' ''https://idp.example/sso''
          | Inr (Some user_id) \<Rightarrow>
              Returned (user_id, True, demo_student, ''2014-06-01T11:59:00Z'',
                        ''https://idp.example/sso'')), 0)"
    using get_name_id_precedence [where n = demo_name_id and ident = demo_student
        and G = demo_G and L = demo_L and self = demo_backend and R = "Some ''student''"
        and bnd = BINDING_HTTP_POST and tid = "''tid''" and ts = "demo_session ''persistent''"
        and s = 0 and sp = "demo_sp PERSISTENT_NAMEID" and t = "''2014-06-01T11:59:00Z''"
        and idp = "''https://idp.example/sso''"]
      demo_choose_persistent demo_parse_student aff mem
    by blast
  with b have e: "acs demo_G demo_L demo_backend (Some ''student'') BINDING_HTTP_POST ''tid''
     (demo_session ''persistent'') 0 =
     (Returned (''eptid-1'', True, demo_student, ''2014-06-01T11:59:00Z'',
                ''https://idp.example/sso''), 0)"
    by simp
  from a b c d e demo_name_id_not_persistent show ?thesis by blast
qed

lemma get_name_id_no_value:
  "get_name_id demo_name_id demo_visitor = Inl IndexError"
  by (simp add: get_name_id_def demo_name_id_def demo_visitor_def first_item_def
      NAMEID_FORMAT_PERSISTENT_def)

lemma demo_parse_member:
  "parse_auth_response demo_L_member sp (Some ''member'') bnd =
     Inr (demo_name_id, demo_member, ''2014-06-01T11:59:00Z'', ''https://idp.example/sso'')"
  by (simp add: parse_auth_response_def demo_L_member_def first_item_def)

lemma demo_member_affiliation:
  "get_affiliation_function demo_L_member (scope (demo_session ''persistent'')) demo_member"
  by (simp add: demo_L_member_def demo_L_def demo_member_def)

text \<open>
  C3. The order of the sources is not kept on every identity. With a name id of another
  format than the persistent one and an identity in which \<^verbatim>\<open>eduPersonTargetedID\<close> is present
  with an empty list of values and \<^verbatim>\<open>eduPersonPrincipalName\<close> has the value
  \<^verbatim>\<open>user@idp.example\<close>, \<^verbatim>\<open>get_name_id\<close> raises \<^verbatim>\<open>IndexError\<close> at \<^verbatim>\<open>identity[key][0]\<close>: it neither
  goes on to \<^verbatim>\<open>eduPersonPrincipalName\<close> nor returns \<^verbatim>\<open>None\<close>. The handler calls it outside
  its \<^verbatim>\<open>try\<close> block, so for a scope with \<^verbatim>\<open>persistent\<close> and a user with the right
  affiliation the exception leaves the handler, where a user id or the negative result
  was due.
\<close>

theorem get_name_id_empty_attribute:
  "demo_member ''eduPersonTargetedID'' = Some [] \<and>
   demo_member ''eduPersonPrincipalName'' = Some [''user@idp.example''] \<and>
   get_name_id demo_name_id demo_member = Inl IndexError \<and>
   get_name_id demo_name_id demo_member \<noteq> Inr (Some ''user@idp.example'') \<and>
   get_name_id demo_name_id demo_member \<noteq> Inr None \<and>
   acs demo_G demo_L_member demo_backend (Some ''member'') BINDING_HTTP_POST ''tid''
     (demo_session ''persistent'') 0 = (Raised IndexError, 0)"
proof -
  have g: "get_name_id demo_name_id demo_member = Inl IndexError"
    by (simp add: get_name_id_def demo_name_id_def demo_member_def first_item_def
        NAMEID_FORMAT_PERSISTENT_def)
  have m: "PERSISTENT_NAMEID \<in> set (scope (demo_session ''persistent''))"
    by (simp add: demo_session_def PERSISTENT_NAMEID_def)
  have "acs demo_G demo_L_member demo_backend (Some ''member'') BINDING_HTTP_POST ''tid''
          (demo_session ''persistent'') 0 =
        ((case get_name_id demo_name_id demo_member of
            Inl e \<Rightarrow> Raised e
          | Inr None \<Rightarrow>
              Negative ''The users identity could not be provided.'' ''https://idp.example/sso''
          | Inr (Some user_id) \<Rightarrow>
              Returned (user_id, True, demo_member, ''2014-06-01T11:59:00Z'',
                        ''https://idp.example/sso'')), 0)"
    by (rule acs_persistent [OF demo_choose_persistent demo_parse_member
          demo_member_affiliation m])
  then have a: "acs demo_G demo_L_member demo_backend (Some ''member'') BINDING_HTTP_POST
      ''tid'' (demo_session ''persistent'') 0 = (Raised IndexError, 0)"
    by (simp add: g)
  have t: "demo_member ''eduPersonTargetedID'' = Some []"
    by (simp add: demo_member_def)
  have p: "demo_member ''eduPersonPrincipalName'' = Some [''user@idp.example'']"
    by (simp add: demo_member_def)
  from t p g a show ?thesis
    by simp
qed

subsection \<open>Resolution of the response\<close>

text \<open>
  C4. When the raw response is absent or empty, \<^verbatim>\<open>parse_auth_response\<close> raises
  \<^verbatim>\<open>AuthnFailure\<close> without calling the SAML library, and the handler aborts the transaction
  with "User not authenticated at IdP.". A response that is not empty and that the
  library rejects gives another exception and another abort, "Could not parse
  Authentication Response from IdP.": the two failures are distinct.
\<close>

theorem empty_response_is_authn_failure:
  assumes "choose_service_provider self (scope ts) = Inr sp"
  shows "(R = None \<or> R = Some [] \<longrightarrow>
            parse_auth_response L sp R bnd = Inl (AuthnFailure ''You are not authorized!'') \<and>
            acs G L self R bnd tid ts s = (Abort ''User not authenticated at IdP.'', s)) \<and>
         (\<forall>r m. r \<noteq> [] \<and> parse_authn_request_response L sp r bnd = Inl m \<longrightarrow>
            parse_auth_response L sp (Some r) bnd = Inl (LibraryError m) \<and>
            acs G L self (Some r) bnd tid ts s =
              (Abort ''Could not parse Authentication Response from IdP.'', s) \<and>
            fst (acs G L self (Some r) bnd tid ts s) \<noteq> fst (acs G L self None bnd tid ts s))"
proof (intro conjI impI allI)
  assume e: "R = None \<or> R = Some []"
  then show p: "parse_auth_response L sp R bnd = Inl (AuthnFailure ''You are not authorized!'')"
    by (auto simp add: parse_auth_response_def)
  with assms show "acs G L self R bnd tid ts s = (Abort ''User not authenticated at IdP.'', s)"
    by (simp add: acs_def abort_with_client_error_def)
next
  fix r m
  assume h: "r \<noteq> [] \<and> parse_authn_request_response L sp r bnd = Inl m"
  then show p: "parse_auth_response L sp (Some r) bnd = Inl (LibraryError m)"
    by (simp add: parse_auth_response_def)
  with assms show a: "acs G L self (Some r) bnd tid ts s =
      (Abort ''Could not parse Authentication Response from IdP.'', s)"
    by (simp add: acs_def abort_with_client_error_def)
  have "parse_auth_response L sp None bnd = Inl (AuthnFailure ''You are not authorized!'')"
    by (simp add: parse_auth_response_def)
  with assms have "acs G L self None bnd tid ts s = (Abort ''User not authenticated at IdP.'', s)"
    by (simp add: acs_def abort_with_client_error_def)
  with a show "fst (acs G L self (Some r) bnd tid ts s) \<noteq> fst (acs G L self None bnd tid ts s)"
    by simp
qed

theorem empty_response_is_authn_failure_witness:
  "choose_service_provider demo_backend (scope (demo_session ''persistent'')) =
     Inr (demo_sp PERSISTENT_NAMEID) \<and>
   acs demo_G demo_L demo_backend None BINDING_HTTP_POST ''tid''
     (demo_session ''persistent'') 0 = (Abort ''User not authenticated at IdP.'', 0) \<and>
   acs demo_G demo_L demo_backend (Some []) BINDING_HTTP_POST ''tid''
     (demo_session ''persistent'') 0 = (Abort ''User not authenticated at IdP.'', 0) \<and>
   parse_authn_request_response demo_L (demo_sp PERSISTENT_NAMEID) ''forged''
     BINDING_HTTP_POST = Inl ''Signature missing'' \<and>
   acs demo_G demo_L demo_backend (Some ''forged'') BINDING_HTTP_POST ''tid''
     (demo_session ''persistent'') 0 =
     (Abort ''Could not parse Authentication Response from IdP.'', 0)"
proof -
  note t = empty_response_is_authn_failure [where self = demo_backend
      and ts = "demo_session ''persistent''" and sp = "demo_sp PERSISTENT_NAMEID"
      and L = demo_L and G = demo_G and bnd = BINDING_HTTP_POST and tid = "''tid''"
      and s = 0, OF demo_choose_persistent]
  have l: "parse_authn_request_response demo_L (demo_sp PERSISTENT_NAMEID) ''forged''
     BINDING_HTTP_POST = Inl ''Signature missing''"
    by (simp add: demo_L_def)
  have a: "acs demo_G demo_L demo_backend None BINDING_HTTP_POST ''tid''
     (demo_session ''persistent'') 0 = (Abort ''User not authenticated at IdP.'', 0)"
    using t [where R = None] by simp
  have b: "acs demo_G demo_L demo_backend (Some []) BINDING_HTTP_POST ''tid''
     (demo_session ''persistent'') 0 = (Abort ''User not authenticated at IdP.'', 0)"
    using t [where R = "Some []"] by simp
  have c: "acs demo_G demo_L demo_backend (Some ''forged'') BINDING_HTTP_POST ''tid''
     (demo_session ''persistent'') 0 =
     (Abort ''Could not parse Authentication Response from IdP.'', 0)"
    using t [where R = None, THEN conjunct2] l by simp
  from demo_choose_persistent a b l c show ?thesis by blast
qed

text \<open>
  C6. When the response was parsed and the affiliation function of the scope maps its
  attribute bag to false, the handler ends with the negative result that carries the
  entity id of the asserting IdP. It is no abort, no exception and no success, whatever
  the scope and the name id are; no random identifier is drawn (the state of the
  generators is unchanged) and \<^verbatim>\<open>get_name_id\<close> has no part in the outcome.
\<close>

theorem no_affiliation_is_negative:
  assumes "choose_service_provider self (scope ts) = Inr sp"
    and "parse_auth_response L sp R bnd = Inr (n, ident, t, idp)"
    and "\<not> get_affiliation_function L (scope ts) ident"
  shows "acs G L self R bnd tid ts s =
           (Negative ''The user does not have the correct affiliation.'' idp, s) \<and>
         (\<forall>v. fst (acs G L self R bnd tid ts s) \<noteq> Returned v) \<and>
         (\<forall>m. fst (acs G L self R bnd tid ts s) \<noteq> Abort m) \<and>
         (\<forall>e. fst (acs G L self R bnd tid ts s) \<noteq> Raised e)"
  using assms by (simp add: acs_def negative_transaction_response_def)

theorem no_affiliation_is_negative_witness:
  "choose_service_provider demo_backend (scope (demo_session ''persistent'')) =
     Inr (demo_sp PERSISTENT_NAMEID) \<and>
   parse_auth_response demo_L (demo_sp PERSISTENT_NAMEID) (Some ''visitor'') BINDING_HTTP_POST =
     Inr (demo_name_id, demo_visitor, ''2014-06-01T11:59:00Z'', ''https://idp.example/sso'') \<and>
   \<not> get_affiliation_function demo_L (scope (demo_session ''persistent'')) demo_visitor \<and>
   get_name_id demo_name_id demo_visitor = Inl IndexError \<and>
   acs demo_G demo_L demo_backend (Some ''visitor'') BINDING_HTTP_POST ''tid''
     (demo_session ''persistent'') 0 =
     (Negative ''The user does not have the correct affiliation.''
        ''https://idp.example/sso'', 0)"
proof -
  have aff: "\<not> get_affiliation_function demo_L (scope (demo_session ''persistent'')) demo_visitor"
    by (simp add: demo_L_def demo_visitor_def)
  note t = no_affiliation_is_negative [where self = demo_backend
      and ts = "demo_session ''persistent''" and sp = "demo_sp PERSISTENT_NAMEID"
      and L = demo_L and G = demo_G and bnd = BINDING_HTTP_POST and tid = "''tid''"
      and s = 0 and R = "Some ''visitor''" and n = demo_name_id and ident = demo_visitor
      and t = "''2014-06-01T11:59:00Z''" and idp = "''https://idp.example/sso''",
      OF demo_choose_persistent demo_parse_visitor aff, THEN conjunct1]
  from demo_choose_persistent demo_parse_visitor aff get_name_id_no_value t
  show ?thesis by blast
qed

subsection \<open>Forced authentication\<close>

lemma SamlSp_init_force:
  "SamlSp_init cnf disco_url force sign = Inr sp \<Longrightarrow> sp_force_authn sp = force"
  by (auto simp add: SamlSp_init_def split: sum.splits)

lemma build_SP_force:
  assumes "build_SP config disco_url acc = Inr sps"
    and "\<And>k sp. acc k = Some sp \<Longrightarrow> sp_force_authn sp"
    and "sps key = Some sp"
  shows "sp_force_authn sp"
  using assms
proof (induction config arbitrary: acc)
  case Nil
  then show ?case by simp
next
  case (Cons entry config)
  obtain sp_key cnf where entry: "entry = (sp_key, cnf)"
    by (cases entry)
  from Cons.prems(1) entry obtain new where
    new: "SamlSp_init cnf disco_url True None = Inr new"
    and rest: "build_SP config disco_url (acc(sp_key \<mapsto> new)) = Inr sps"
    by (auto split: sum.splits)
  from new have "sp_force_authn new"
    by (simp add: SamlSp_init_force)
  with Cons.prems(2) have "\<And>k sp. (acc(sp_key \<mapsto> new)) k = Some sp \<Longrightarrow> sp_force_authn sp"
    by (auto split: if_splits)
  with Cons.IH rest Cons.prems(3) show ?case
    by blast
qed

lemma construct_force:
  assumes "construct_authn_request G sp idp mds pol url idx s = (Inr (req, b), s')"
  shows "force_authn req = (if sp_force_authn sp then ''true'' else ''false'')"
  using assms
  by (auto simp add: construct_authn_request_def Let_def
      split: sum.splits option.splits prod.splits)

text \<open>
  C10. Every service provider that the constructor of the backend puts into the registry
  has \<^verbatim>\<open>force_authn\<close> set, under any key, and every request that such a service provider
  builds carries the forced-authentication flag \<^verbatim>\<open>"true"\<close>, for any IdP, metadata, policy
  and endpoint arguments.
\<close>

theorem force_authn_always:
  assumes "backend_init config mdx disco_url = Inr self"
    and "SP self key = Some sp"
  shows "sp_force_authn sp \<and>
         (construct_authn_request G sp idp mds pol url idx s = (Inr (req, b), s') \<longrightarrow>
            force_authn req = ''true'')"
proof -
  from assms(1) obtain sps where b: "build_SP config disco_url Map.empty = Inr sps"
    and s: "self = \<lparr> SP = sps, metadata = mdx \<rparr>"
    by (auto simp add: backend_init_def split: sum.splits)
  from s assms(2) have "sps key = Some sp"
    by simp
  with b have f: "sp_force_authn sp"
    using build_SP_force [where acc = Map.empty and config = config and disco_url = disco_url
        and sps = sps and key = key and sp = sp]
    by simp
  then show ?thesis
    by (auto dest: construct_force)
qed

lemma demo_construct:
  "construct_authn_request demo_G (demo_sp TRANSIENT_NAMEID) ''https://idp.example/sso''
     demo_mds (nameid_policy (demo_sp TRANSIENT_NAMEID)) ''https://sp.example/acs/post'' [] 0 =
   (Inr (\<lparr> id = ''id-'', version = ''2.0'', issue_instant = ''2014-06-01T12:00:00Z'',
           issuer = sp_issuer (demo_sp TRANSIENT_NAMEID),
           name_id_policy = nameid_policy (demo_sp TRANSIENT_NAMEID),
           force_authn = ''true'', destination = ''https://idp.example/post'',
           assertion_consumer_service_url = Some ''https://sp.example/acs/post'',
           protocol_binding = Some BINDING_HTTP_POST,
           assertion_consumer_service_index = None \<rparr>, BINDING_HTTP_POST), 1)"
  by (simp add: construct_authn_request_def demo_mds_def demo_dests_both_def choose_binding_def
      getitem_def first_item_def demo_G_def demo_sp_def)

theorem force_authn_always_witness:
  "backend_init demo_config demo_mds ''https://ds.example'' = Inr demo_backend \<and>
   SP demo_backend TRANSIENT_NAMEID = Some (demo_sp TRANSIENT_NAMEID) \<and>
   SP demo_backend PERSISTENT_NAMEID = Some (demo_sp PERSISTENT_NAMEID) \<and>
   sp_force_authn (demo_sp TRANSIENT_NAMEID) \<and>
   sp_force_authn (demo_sp PERSISTENT_NAMEID) \<and>
   (\<exists>req s'. construct_authn_request demo_G (demo_sp TRANSIENT_NAMEID)
       ''https://idp.example/sso'' demo_mds (nameid_policy (demo_sp TRANSIENT_NAMEID))
       ''https://sp.example/acs/post'' [] 0 = (Inr (req, BINDING_HTTP_POST), s') \<and>
     force_authn req = ''true'')"
proof -
  note t = force_authn_always [where config = demo_config and mdx = demo_mds
      and disco_url = "''https://ds.example''" and self = demo_backend
      and key = TRANSIENT_NAMEID and sp = "demo_sp TRANSIENT_NAMEID"
      and G = demo_G and idp = "''https://idp.example/sso''" and mds = demo_mds
      and pol = "nameid_policy (demo_sp TRANSIENT_NAMEID)"
      and url = "''https://sp.example/acs/post''" and idx = "[]" and s = 0,
      OF demo_backend_init demo_backend_transient]
  note p = force_authn_always [where config = demo_config and mdx = demo_mds
      and disco_url = "''https://ds.example''" and self = demo_backend
      and key = PERSISTENT_NAMEID and sp = "demo_sp PERSISTENT_NAMEID",
      OF demo_backend_init demo_backend_persistent, THEN conjunct1]
  from t demo_construct have "\<exists>req s'. construct_authn_request demo_G (demo_sp TRANSIENT_NAMEID)
       ''https://idp.example/sso'' demo_mds (nameid_policy (demo_sp TRANSIENT_NAMEID))
       ''https://sp.example/acs/post'' [] 0 = (Inr (req, BINDING_HTTP_POST), s') \<and>
     force_authn req = ''true''"
    by blast
  with t p demo_backend_init demo_backend_transient demo_backend_persistent
  show ?thesis by blast
qed

subsection \<open>The parts of a split URL\<close>



lemma split1_snd_keeps: "x \<notin> set s \<Longrightarrow> x \<notin> set (snd (split1 c s))"
  by (auto simp add: split1_def dest: in_set_dropD set_dropWhileD)

















subsection \<open>The parameters of the last path segment\<close>





subsection \<open>The parts of a parsed URL\<close>





subsection \<open>Reassembly\<close>



subsection \<open>The query parameters\<close>



lemma parse_qsl_empty: "parse_qsl [] = []"
  by (simp add: parse_qsl_def parse_qsl_field_def)

lemma parse_qs_empty: "parse_qs [] k = None"
  by (simp add: parse_qs_def parse_qsl_empty)

subsection \<open>Federation membership\<close>

lemma urlparse_error:
  assumes "urlparse url = Inl e"
  shows "e = ValueError ''Invalid IPv6 URL''"
proof -
  have r: "\<And>sch u. urlsplit_rest sch u = Inl e \<Longrightarrow> e = ValueError ''Invalid IPv6 URL''"
    by (auto simp add: urlsplit_rest_def Let_def split: if_splits prod.splits)
  from assms have "urlsplit url = Inl e"
    by (auto simp add: urlparse_def Let_def split: sum.splits prod.splits)
  then obtain sch u where "urlsplit_rest sch u = Inl e"
    by (auto simp add: urlsplit_def Let_def split: if_splits)
  then show ?thesis
    by (rule r)
qed

lemma demo_urlparse_plain:
  "urlparse ''https://idp.example/sso'' =
     Inr \<lparr> scheme = ''https'', netloc = ''idp.example'', path = ''/sso'', query = [],
           fragment = [], params = [] \<rparr>"
  by (simp add: urlparse_def urlsplit_def urlsplit_rest_def splitnetloc_def split1_def
      netloc_delim_def scheme_chars_def lower_def lower_char_def uses_params_def)

lemma demo_urlparse_tagged:
  "urlparse ''https://idp.example/sso?inedugain=false'' =
     Inr \<lparr> scheme = ''https'', netloc = ''idp.example'', path = ''/sso'',
           query = ''inedugain=false'', fragment = [], params = [] \<rparr>"
  by (simp add: urlparse_def urlsplit_def urlsplit_rest_def splitnetloc_def split1_def
      netloc_delim_def scheme_chars_def lower_def lower_char_def uses_params_def)



lemma demo_parse_qs_tagged: "parse_qs ''inedugain=false'' ''inedugain'' = Some [''false'']"
  by (simp add: parse_qs_def parse_qsl_def parse_qsl_field_def split1_def unquote_def
      plus_to_space_def)





subsection \<open>The discovery return\<close>

lemma demo_not_member:
  "is_in_edugain ''https://idp.example/sso?inedugain=false'' = Inr False"
  by (simp add: is_in_edugain_def demo_urlparse_tagged demo_parse_qs_tagged)

lemma demo_canonical_tagged:
  "parse_idp_entity_id ''https://idp.example/sso?inedugain=false'' =
     Inr ''https://idp.example/sso''"
  by (simp add: parse_idp_entity_id_def demo_urlparse_tagged urlunparse_def urlunsplit_def
      uses_netloc_def)

text \<open>
  The same backend on the identifier without the tag: the request is built (the request
  id is drawn, the state of the generators moves on) and the handler returns the
  transport response.
\<close>

lemma demo_disco_member:
  "disco demo_G demo_L demo_backend ''https://idp.example/sso'' ''tid''
     (demo_session ''persistent'') 0 =
   (Returned (Response ''id-tid'' [(''Location'', ''https://idp.example/post'')]), 1)"
proof -
  have m: "is_in_edugain ''https://idp.example/sso'' = Inr True"
    by (simp add: is_in_edugain_def demo_urlparse_plain parse_qs_empty)
  have c: "parse_idp_entity_id ''https://idp.example/sso'' = Inr ''https://idp.example/sso''"
    by (simp add: parse_idp_entity_id_def demo_urlparse_plain urlunparse_def urlunsplit_def
        uses_netloc_def)
  have r: "construct_authn_request demo_G (demo_sp PERSISTENT_NAMEID) ''https://idp.example/sso''
     demo_mds (nameid_policy (demo_sp PERSISTENT_NAMEID)) ''https://sp.example/acs/post'' [] 0 =
   (Inr (\<lparr> id = ''id-'', version = ''2.0'', issue_instant = ''2014-06-01T12:00:00Z'',
           issuer = sp_issuer (demo_sp PERSISTENT_NAMEID),
           name_id_policy = nameid_policy (demo_sp PERSISTENT_NAMEID),
           force_authn = ''true'', destination = ''https://idp.example/post'',
           assertion_consumer_service_url = Some ''https://sp.example/acs/post'',
           protocol_binding = Some BINDING_HTTP_POST,
           assertion_consumer_service_index = None \<rparr>, BINDING_HTTP_POST), 1)"
    by (simp add: construct_authn_request_def demo_mds_def demo_dests_both_def
        choose_binding_def getitem_def first_item_def demo_G_def demo_sp_def)
  have u: "response_url (demo_sp PERSISTENT_NAMEID) = ''https://sp.example/acs/post''"
    and g: "sign_func (demo_sp PERSISTENT_NAMEID) = None"
    by (simp_all add: demo_sp_def)
  have d: "BINDING_HTTP_POST \<noteq> BINDING_HTTP_REDIRECT"
    by (simp add: BINDING_HTTP_POST_def BINDING_HTTP_REDIRECT_def)
  have "redirect_to_auth demo_G demo_L (demo_sp PERSISTENT_NAMEID) demo_mds
          ''https://idp.example/sso'' ''tid'' 0 =
        (Inr (Response ''id-tid'' [(''Location'', ''https://idp.example/post'')]), 1)"
    by (simp add: redirect_to_auth_def u g r d demo_L_def)
  moreover have "metadata demo_backend = demo_mds"
    by (simp add: demo_backend_def)
  ultimately show ?thesis
    by (simp add: disco_def demo_choose_persistent m c)
qed

text \<open>
  C8. When the membership test of the discovered entity id fails, the handler aborts
  the transaction with the message that names the canonical entity id. The outcome is the
  same for every metadata source, library and generator, and the state of the
  generators is unchanged: no metadata is looked up, no request id is drawn, no request
  is built or encoded.
\<close>

theorem non_member_aborts:
  assumes "is_in_edugain entity_id = Inr False"
    and "choose_service_provider self (scope ts) = Inr sp"
  shows "\<exists>idp. parse_idp_entity_id entity_id = Inr idp \<and>
           disco G L self entity_id tid ts s =
             (Abort (''Non-edugain IdP '' @ [CHR 0x27] @ idp @ [CHR 0x27] @
                     '' returned from discovery server''), s) \<and>
           (\<forall>r. fst (disco G L self entity_id tid ts s) \<noteq> Returned r)"
proof -
  from assms(1) obtain p where p: "urlparse entity_id = Inr p"
    by (auto simp add: is_in_edugain_def split: sum.splits)
  then obtain idp where i: "parse_idp_entity_id entity_id = Inr idp"
    by (simp add: parse_idp_entity_id_def)
  from assms i have "disco G L self entity_id tid ts s =
             (Abort (''Non-edugain IdP '' @ [CHR 0x27] @ idp @ [CHR 0x27] @
                     '' returned from discovery server''), s)"
    by (simp add: disco_def abort_with_client_error_def)
  with i show ?thesis
    by simp
qed

theorem non_member_aborts_witness:
  "is_in_edugain ''https://idp.example/sso?inedugain=false'' = Inr False \<and>
   choose_service_provider demo_backend (scope (demo_session ''persistent'')) =
     Inr (demo_sp PERSISTENT_NAMEID) \<and>
   metadata demo_backend ''https://idp.example/sso'' = Inr (Some demo_dests_both) \<and>
   disco demo_G demo_L demo_backend ''https://idp.example/sso?inedugain=false'' ''tid''
     (demo_session ''persistent'') 0 =
     (Abort (''Non-edugain IdP '' @ [CHR 0x27] @ ''https://idp.example/sso'' @ [CHR 0x27] @
             '' returned from discovery server''), 0) \<and>
   disco demo_G demo_L demo_backend ''https://idp.example/sso'' ''tid''
     (demo_session ''persistent'') 0 =
     (Returned (Response ''id-tid'' [(''Location'', ''https://idp.example/post'')]), 1)"
proof -
  have m: "metadata demo_backend ''https://idp.example/sso'' = Inr (Some demo_dests_both)"
    by (simp add: demo_backend_def demo_mds_def)
  from non_member_aborts [where entity_id = "''https://idp.example/sso?inedugain=false''"
      and self = demo_backend and ts = "demo_session ''persistent''"
      and sp = "demo_sp PERSISTENT_NAMEID" and G = demo_G and L = demo_L
      and tid = "''tid''" and s = 0, OF demo_not_member demo_choose_persistent]
  have "disco demo_G demo_L demo_backend ''https://idp.example/sso?inedugain=false'' ''tid''
     (demo_session ''persistent'') 0 =
     (Abort (''Non-edugain IdP '' @ [CHR 0x27] @ ''https://idp.example/sso'' @ [CHR 0x27] @
             '' returned from discovery server''), 0)"
    by (simp add: demo_canonical_tagged)
  with demo_not_member demo_choose_persistent m demo_disco_member show ?thesis
    by blast
qed

subsection \<open>The canonical entity id\<close>






subsection \<open>The ephemeral user identifier\<close>

text \<open>
  For a scope without the token \<^verbatim>\<open>persistent\<close>, after a parsed response and a true
  affiliation, the user id is the string that \<^verbatim>\<open>rndstr(256)\<close> returns in the current state
  of the generators: the name id and the attributes of the response have no part in it.
\<close>

lemma acs_transient:
  assumes "choose_service_provider self (scope ts) = Inr sp"
    and "parse_auth_response L sp R bnd = Inr (n, ident, t, idp)"
    and "get_affiliation_function L (scope ts) ident"
    and "PERSISTENT_NAMEID \<notin> set (scope ts)"
  shows "acs G L self R bnd tid ts s =
           (Returned (fst (rndstr G 256 s), True, ident, t, idp), snd (rndstr G 256 s))"
  using assms
  by (simp add: acs_def split: prod.splits)

end
